theory Spec2Isabelle
  imports Complex_Main
begin

section \<open>The Clair V4 security scanner model of Quay\<close>

text \<open>
  A shallow embedding of \<^verbatim>\<open>data/secscan_model/secscan_v4_model.py\<close>.
  Python exceptions that leave a function are values of \<open>error\<close>; the collaborators
  that live outside the file (the registry, the remote engine's client, the database,
  the batch sampler, the clock and the configuration) are fields of the record
  \<open>env\<close>, so every theorem holds for whatever they answer.
\<close>

subsection \<open>Exceptions and database rows\<close>

datatype error = TypeError | KeyError | IndexError | DatabaseError

text \<open>\<^verbatim>\<open>data.database.IndexStatus\<close> and \<^verbatim>\<open>IndexerVersion\<close>: the members the file names.\<close>

datatype IndexStatus = MANIFEST_UNSUPPORTED | FAILED | IN_PROGRESS | COMPLETED

datatype IndexerVersion = V2 | V4

text \<open>
  \<^verbatim>\<open>IndexReportState = namedtuple(...)("IndexFinished", "IndexError")\<close>
\<close>

definition Index_Finished :: string where
  "Index_Finished = ''IndexFinished''"

definition Index_Error :: string where
  "Index_Error = ''IndexError''"

text \<open>
  A row of \<^verbatim>\<open>ManifestSecurityStatus\<close>, with the columns the file writes or reads.
  \<open>error_json = None\<close> is the column's default, which \<^verbatim>\<open>mark_manifest_unsupported\<close>
  leaves in place; \<open>last_indexed\<close> is never passed to \<^verbatim>\<open>create\<close> and takes the
  clock's value at the insertion.
\<close>

record ManifestSecurityStatus =
  manifest :: int
  repository :: int
  error_json :: "string option"
  index_status :: IndexStatus
  indexer_hash :: string
  indexer_version :: IndexerVersion
  metadata_json :: "(string \<times> string) list"
  last_indexed :: int

text \<open>
  A candidate: a \<^verbatim>\<open>Manifest\<close> row as the iterator's query selected it.
  \<open>manifestsecuritystatus\<close> is the status row the query joined (\<open>None\<close> when it
  joined none, so that \<^verbatim>\<open>getattr(candidate, "manifestsecuritystatus", None)\<close> is
  falsy); \<open>is_manifest_list\<close> is what \<^verbatim>\<open>ManifestDataType.for_manifest\<close> derives
  from the row.
\<close>

record Manifest =
  db_id :: int
  candidate_repository :: int
  digest :: string
  is_manifest_list :: bool
  manifestsecuritystatus :: "ManifestSecurityStatus option"

type_synonym layer = string

text \<open>The report of \<^verbatim>\<open>_secscan_api.index\<close>: the two keys the pipeline reads.\<close>

record index_report =
  report_state :: string
  report_err :: string

text \<open>
  What the call \<^verbatim>\<open>self._secscan_api.index(manifest, layers)\<close> does: it raises one of
  the two exceptions the pipeline catches, or returns \<^verbatim>\<open>(report, state)\<close>.
\<close>

datatype index_outcome =
    Raise_InvalidContentSent
  | Raise_APIRequestFailure
  | Return index_report string

text \<open>The answer of a remote call that the file guards with \<^verbatim>\<open>except APIRequestFailure\<close>.\<close>

datatype 'a api_response = APIRequestFailure string | Response 'a

text \<open>\<^verbatim>\<open>indexer_state.get("state", "")\<close> is the only read of the engine's state.\<close>

record indexer_state =
  state_hash :: "string option"

text \<open>
  The three queries \<^verbatim>\<open>_get_manifest_iterator\<close> builds, with what each closes over.
\<close>

datatype query =
    not_indexed_query
  | index_error_query int
  | needs_reindexing_query string int

text \<open>
  What the iterator yields: \<^verbatim>\<open>(candidate, abt, num_remaining)\<close>. The abort flag of
  a window is named by a number.
\<close>

type_synonym item = "Manifest \<times> nat \<times> nat"

subsection \<open>Collaborators and state\<close>

text \<open>
  \<open>yield_random_entries\<close> is \<^verbatim>\<open>util.migrate.allocator.yield_random_entries\<close>, which is
  not part of the file: the list stands for the items it yields during one pass.
  \<open>db_transaction_fails n\<close> says that the \<open>n\<close>-th transaction of the pass raises.
  \<open>manifest_ids\<close> are the identifiers in the \<^verbatim>\<open>Manifest\<close> table.
  \<open>pow4_log10 x\<close> is the value the interpreter's double-precision arithmetic gives
  \<^verbatim>\<open>4 ** log10(x)\<close>: a double is a real number, and which one the library functions
  return is left to the platform.
\<close>

record env =
  list_manifest_layers :: "Manifest \<Rightarrow> layer list option"
  secscan_api_index :: "Manifest \<Rightarrow> layer list \<Rightarrow> index_outcome"
  secscan_api_state :: "indexer_state api_response"
  db_transaction_fails :: "nat \<Rightarrow> bool"
  utcnow :: int
  config_batch_size :: "int option"
  config_reindex_threshold :: "int option"
  manifest_ids :: "int list"
  yield_random_entries :: "query \<Rightarrow> int \<Rightarrow> int \<Rightarrow> int \<Rightarrow> item list"
  pow4_log10 :: "int \<Rightarrow> real"

text \<open>
  The state a pass changes: the status table, the abort flags that were set, the
  manifests submitted to the remote engine (in order), and the number of transactions
  begun.
\<close>

record pipeline_state =
  status_table :: "ManifestSecurityStatus list"
  abort_flags :: "nat set"
  submitted :: "int list"
  transactions :: nat

subsection \<open>The indexing pipeline\<close>

text \<open>
  \<^verbatim>\<open>with db_transaction(): ...\<close> around a delete and a create: either the
  transaction raises and the table is as before, or the body's change is committed.
\<close>

definition db_transaction ::
  "env \<Rightarrow> (ManifestSecurityStatus list \<Rightarrow> ManifestSecurityStatus list) \<Rightarrow>
   pipeline_state \<Rightarrow> error option \<times> pipeline_state" where
  "db_transaction e body st =
     (if db_transaction_fails e (transactions st)
      then (Some DatabaseError, st\<lparr>transactions := transactions st + 1\<rparr>)
      else (None, st\<lparr>status_table := body (status_table st),
                       transactions := transactions st + 1\<rparr>))"

definition mark_manifest_unsupported ::
  "env \<Rightarrow> Manifest \<Rightarrow> pipeline_state \<Rightarrow> error option \<times> pipeline_state" where
  "mark_manifest_unsupported e m st =
     db_transaction e
       (\<lambda>rows.
          filter (\<lambda>r. \<not> (manifest r = db_id m \<and> repository r = candidate_repository m)) rows
          @ [\<lparr>manifest = db_id m,
              repository = candidate_repository m,
              error_json = None,
              index_status = MANIFEST_UNSUPPORTED,
              indexer_hash = ''none'',
              indexer_version = V4,
              metadata_json = [],
              last_indexed = utcnow e\<rparr>])
       st"

text \<open>\<^verbatim>\<open>candidate.manifestsecuritystatus_set\<close>: the back-reference, read from the table.\<close>

definition manifestsecuritystatus_set ::
  "pipeline_state \<Rightarrow> Manifest \<Rightarrow> ManifestSecurityStatus list" where
  "manifestsecuritystatus_set st c = filter (\<lambda>r. manifest r = db_id c) (status_table st)"

definition should_skip_indexing :: "int \<Rightarrow> pipeline_state \<Rightarrow> Manifest \<Rightarrow> bool" where
  "should_skip_indexing reindex_threshold st manifest_candidate =
     (case manifestsecuritystatus manifest_candidate of
        Some s \<Rightarrow> last_indexed s \<ge> reindex_threshold
      | None \<Rightarrow> length (manifestsecuritystatus_set st manifest_candidate) > 0)"

text \<open>The final transaction of the loop body: delete the manifest's rows, create one.\<close>

definition write_status ::
  "env \<Rightarrow> Manifest \<Rightarrow> index_report \<Rightarrow> IndexStatus \<Rightarrow> string \<Rightarrow>
   pipeline_state \<Rightarrow> error option \<times> pipeline_state" where
  "write_status e candidate report status state st =
     db_transaction e
       (\<lambda>rows.
          filter (\<lambda>r. manifest r \<noteq> db_id candidate) rows
          @ [\<lparr>manifest = db_id candidate,
              repository = candidate_repository candidate,
              error_json = Some (report_err report),
              index_status = status,
              indexer_hash = state,
              indexer_version = V4,
              metadata_json = [],
              last_indexed = utcnow e\<rparr>])
       st"

text \<open>
  One round of the \<^verbatim>\<open>for\<close> loop of \<^verbatim>\<open>_index\<close>. The result is the exception that
  leaves the loop body, if any, and the state then.
\<close>

definition index_candidate ::
  "env \<Rightarrow> int \<Rightarrow> item \<Rightarrow> pipeline_state \<Rightarrow> error option \<times> pipeline_state" where
  "index_candidate e reindex_threshold it st =
     (case it of (candidate, abt, num_remaining) \<Rightarrow>
        if is_manifest_list candidate then mark_manifest_unsupported e candidate st
        else
          (case list_manifest_layers e candidate of
             None \<Rightarrow> mark_manifest_unsupported e candidate st
           | Some layers \<Rightarrow>
               if length layers = 0 then mark_manifest_unsupported e candidate st
               else if should_skip_indexing reindex_threshold st candidate
               then (None, st\<lparr>abort_flags := insert abt (abort_flags st)\<rparr>)
               else
                 (let st1 = st\<lparr>submitted := submitted st @ [db_id candidate]\<rparr> in
                  case secscan_api_index e candidate layers of
                    Raise_InvalidContentSent \<Rightarrow> mark_manifest_unsupported e candidate st1
                  | Raise_APIRequestFailure \<Rightarrow> (None, st1)
                  | Return report state \<Rightarrow>
                      if report_state report = Index_Finished
                      then write_status e candidate report COMPLETED state st1
                      else if report_state report = Index_Error
                      then write_status e candidate report FAILED state st1
                      else (None, st1))))"

text \<open>
  \<^verbatim>\<open>_index\<close>: the loop. An exception of a round leaves the loop, and the function,
  at once.
\<close>

fun index_pass ::
  "env \<Rightarrow> int \<Rightarrow> item list \<Rightarrow> pipeline_state \<Rightarrow> error option \<times> pipeline_state" where
  "index_pass e reindex_threshold [] st = (None, st)"
| "index_pass e reindex_threshold (it # its) st =
     (case index_candidate e reindex_threshold it st of
        (Some ex, st') \<Rightarrow> (Some ex, st')
      | (None, st') \<Rightarrow> index_pass e reindex_threshold its st')"

subsection \<open>Choosing the range: the two scan entry points\<close>


text \<open>
  \<^verbatim>\<open>Manifest.select(fn.Max(Manifest.id)).scalar()\<close> and its \<^verbatim>\<open>fn.Min\<close> twin:
  \<^verbatim>\<open>None\<close> on an empty table.
\<close>

definition select_max_id :: "int list \<Rightarrow> int option" where
  "select_max_id ids = (case ids of [] \<Rightarrow> None | x # xs \<Rightarrow> Some (fold max xs x))"


text \<open>\<^verbatim>\<open>int(x)\<close> of a float: the digits after the point are dropped.\<close>

definition int_of_float :: "real \<Rightarrow> int" where
  "int_of_float x = (if 0 \<le> x then \<lfloor>x\<rfloor> else \<lceil>x\<rceil>)"

text \<open>
  \<^verbatim>\<open>int(4 ** log10(max(10, max_id - min_id)))\<close>, with the floating-point value of the
  power taken from the platform.
\<close>

definition auto_batch_size :: "env \<Rightarrow> int \<Rightarrow> int \<Rightarrow> int" where
  "auto_batch_size e lo hi = int_of_float (pow4_log10 e (max 10 (hi - lo)))"

text \<open>\<^verbatim>\<open>not batch_size\<close>: the argument is \<^verbatim>\<open>None\<close> or \<open>0\<close>.\<close>

definition not_batch_size :: "int option \<Rightarrow> bool" where
  "not_batch_size b = (case b of None \<Rightarrow> True | Some n \<Rightarrow> n = 0)"

definition get_manifest_iterator ::
  "env \<Rightarrow> indexer_state \<Rightarrow> int \<Rightarrow> int \<Rightarrow> int option \<Rightarrow> int \<Rightarrow> item list" where
  "get_manifest_iterator e ist lo hi batch_size reindex_threshold =
     (let bs = (case batch_size of
                  None \<Rightarrow> auto_batch_size e lo hi
                | Some n \<Rightarrow> if n = 0 then auto_batch_size e lo hi else n)
      in yield_random_entries e not_indexed_query bs hi lo
         @ yield_random_entries e (index_error_query reindex_threshold) bs hi lo
         @ yield_random_entries e
             (needs_reindexing_query
                (case state_hash ist of None \<Rightarrow> [] | Some h \<Rightarrow> h) reindex_threshold)
             bs hi lo)"

text \<open>\<^verbatim>\<open>self.app.config.get(key, default)\<close>\<close>

definition config_get :: "int option \<Rightarrow> int \<Rightarrow> int" where
  "config_get v d = (case v of None \<Rightarrow> d | Some x \<Rightarrow> x)"

definition effective_batch_size :: "env \<Rightarrow> int option \<Rightarrow> int" where
  "effective_batch_size e batch_size =
     (if not_batch_size batch_size then config_get (config_batch_size e) 0
      else (case batch_size of Some n \<Rightarrow> n | None \<Rightarrow> 0))"

definition reindex_threshold_of :: "env \<Rightarrow> int" where
  "reindex_threshold_of e = utcnow e - config_get (config_reindex_threshold e) 86400"



text \<open>
  \<^verbatim>\<open>perform_indexing_recent_manifests\<close> has no \<^verbatim>\<open>return\<close> after the pass; with no
  row in the table, \<^verbatim>\<open>end_index - batch_size\<close> is \<^verbatim>\<open>None - int\<close>, a TypeError.
\<close>

definition perform_indexing_recent_manifests ::
  "env \<Rightarrow> int option \<Rightarrow> pipeline_state \<Rightarrow> (error + unit) \<times> pipeline_state" where
  "perform_indexing_recent_manifests e batch_size st =
     (case secscan_api_state e of
        APIRequestFailure msg \<Rightarrow> (Inr (), st)
      | Response ist \<Rightarrow>
          (let bs = effective_batch_size e batch_size;
               reindex_threshold = reindex_threshold_of e
           in case select_max_id (manifest_ids e) of
                None \<Rightarrow> (Inl TypeError, st)
              | Some end_index \<Rightarrow>
                  (let start_index = max (end_index - bs) 1 in
                   case index_pass e reindex_threshold
                          (get_manifest_iterator e ist start_index end_index
                             (Some (max (bs div 20) 1)) reindex_threshold)
                          st of
                     (Some ex, st') \<Rightarrow> (Inl ex, st')
                   | (None, st') \<Rightarrow> (Inr (), st'))))"

subsection \<open>Notification pages\<close>

datatype PaginatedNotificationStatus = SUCCESS | RETRYABLE_ERROR | FATAL_ERROR

text \<open>\<^verbatim>\<open>PaginatedNotificationResult(status, data, next_page_index)\<close>\<close>

datatype 'n PaginatedNotificationResult =
  PaginatedNotificationResult PaginatedNotificationStatus "'n list option" "string option"

record page_info =
  page_next :: "string option"

record 'n notification_page =
  notifications :: "'n list"
  page :: "page_info option"

text \<open>
  The first argument is \<^verbatim>\<open>self._secscan_api.retrieve_notification_page\<close>: it raises
  \<^verbatim>\<open>APIRequestFailure\<close>, or returns \<^verbatim>\<open>None\<close> or a page.
\<close>

definition lookup_notification_page ::
  "(string \<Rightarrow> string option \<Rightarrow> 'n notification_page option api_response) \<Rightarrow>
   string \<Rightarrow> string option \<Rightarrow> 'n PaginatedNotificationResult" where
  "lookup_notification_page retrieve_notification_page notification_id page_index =
     (case retrieve_notification_page notification_id page_index of
        APIRequestFailure msg \<Rightarrow> PaginatedNotificationResult RETRYABLE_ERROR None None
      | Response None \<Rightarrow> PaginatedNotificationResult FATAL_ERROR None None
      | Response (Some notification_page_results) \<Rightarrow>
          PaginatedNotificationResult SUCCESS
            (Some (notifications notification_page_results))
            (case page notification_page_results of
               None \<Rightarrow> None
             | Some pg \<Rightarrow> page_next pg))"

subsection \<open>The vulnerability report and its normal form\<close>

text \<open>
  The engine's \<^verbatim>\<open>VulnerabilityReport\<close>, a JSON object. A key the file reads with a
  subscript is a field; a key it reads with \<^verbatim>\<open>.get\<close> is an optional field; a
  dictionary the file iterates is the list of its items in their order, one it only
  looks keys up in is a map. A lookup by a key taken from the data, and an index into
  a list, raise as in Python.
\<close>

record package =
  pkg_name :: string
  pkg_version :: string

record environment =
  introduced_in :: string

record vuln_repository =
  repo_name :: "string option"
  repo_uri :: "string option"

record vuln_distribution =
  dist_name :: "string option"
  dist_version :: "string option"

text \<open>
  \<open>name\<close> is read both ways: \<^verbatim>\<open>.get("name", "")\<close> for the key of the
  deduplication, \<^verbatim>\<open>vuln["name"]\<close> for the output.
\<close>

record vulnerability =
  vuln_id :: string
  vuln_name :: "string option"
  updater :: string
  links :: string
  fixed_in_version :: string
  description :: string
  normalized_severity :: string
  vuln_repo :: "vuln_repository option"
  vuln_dist :: "vuln_distribution option"

text \<open>
  An enrichment entry: \<^verbatim>\<open>x["baseScore"]\<close> in the sort key,
  \<^verbatim>\<open>.get("baseScore", "")\<close> and \<^verbatim>\<open>.get("vectorString", "")\<close> in the output. Scores are
  the decimal numbers of the JSON text.
\<close>

record enrichment =
  baseScore :: "rat option"
  vectorString :: "string option"

record report =
  manifest_hash :: string
  packages :: "(string \<times> package) list"
  environments :: "string \<rightharpoonup> environment list"
  package_vulnerabilities :: "string \<rightharpoonup> string list"
  vulnerabilities :: "string \<rightharpoonup> vulnerability"
  enrichments :: "(string \<times> (string \<times> enrichment list) list list) list option"

text \<open>
  The named tuples of \<^verbatim>\<open>data.secscan_model.datatypes\<close>, built by position as the file
  builds them.
\<close>

datatype score = ScoreNumber rat | ScoreString string

datatype CVSSv3 = CVSSv3 string score

datatype NVD = NVD CVSSv3

datatype Metadata =
  Metadata string "string option" "string option" "string option" "string option" NVD

datatype Vulnerability =
  Vulnerability string string string string string string Metadata

datatype Feature =
  Feature string string string string string "Vulnerability list"

datatype Layer = Layer string string string int "Feature list"

datatype SecurityInformation = SecurityInformation Layer

text \<open>
  \<^verbatim>\<open>sorted(val, key=..., reverse=True)\<close>: Python's sort is stable also when reversed;
  the list is reversed, sorted stably in ascending order, and reversed again.
\<close>

definition sorted_reverse :: "('a \<Rightarrow> 'k::linorder) \<Rightarrow> 'a list \<Rightarrow> 'a list" where
  "sorted_reverse key xs = rev (sort_key key (rev xs))"

text \<open>
  \<^verbatim>\<open>sorted(val, key=lambda x: x["baseScore"], reverse=True)[0]\<close>: the key is taken of
  every entry (KeyError when one has no score) before the first element is read
  (IndexError when there is none).
\<close>

definition highest_base_score :: "enrichment list \<Rightarrow> error + enrichment" where
  "highest_base_score val =
     (case those (map baseScore val) of
        None \<Rightarrow> Inl KeyError
      | Some scores \<Rightarrow>
          (case sorted_reverse fst (zip scores val) of
             [] \<Rightarrow> Inl IndexError
           | (s, x) # rest \<Rightarrow> Inr x))"

text \<open>The dictionary comprehension over the items of the first enrichment document.\<close>

fun enrichment_items ::
  "(string \<times> enrichment list) list \<Rightarrow> error + (string \<times> enrichment) list" where
  "enrichment_items [] = Inr []"
| "enrichment_items ((key, val) # rest) =
     (case highest_base_score val of
        Inl ex \<Rightarrow> Inl ex
      | Inr x \<Rightarrow>
          (case enrichment_items rest of
             Inl ex \<Rightarrow> Inl ex
           | Inr ys \<Rightarrow> Inr ((key, x) # ys)))"

text \<open>
  \<^verbatim>\<open>{...} if report.get("enrichments", {}) else {}\<close>, where the comprehension ranges
  over \<^verbatim>\<open>list(report["enrichments"].values())[0][0].items()\<close>.
\<close>

definition report_enrichments :: "report \<Rightarrow> error + (string \<times> enrichment) list" where
  "report_enrichments r =
     (case enrichments r of
        None \<Rightarrow> Inr []
      | Some [] \<Rightarrow> Inr []
      | Some ((source, docs) # sources) \<Rightarrow>
          (case docs of
             [] \<Rightarrow> Inl IndexError
           | doc # others \<Rightarrow> enrichment_items doc))"

text \<open>The key of the deduplication.\<close>

definition vuln_key :: "package \<Rightarrow> vulnerability \<Rightarrow> string" where
  "vuln_key pkg v =
     pkg_name pkg @ ''_'' @ pkg_version pkg @ ''_''
       @ (case vuln_name v of None \<Rightarrow> [] | Some n \<Rightarrow> n)"

text \<open>
  The inner loop over the vulnerability ids of one package. \<open>dedupe_vulns\<close> is the
  set of keys the dictionary of that name maps to \<^verbatim>\<open>True\<close>.
\<close>

fun collect_pkg_vulns ::
  "report \<Rightarrow> package \<Rightarrow> string list \<Rightarrow> string set \<Rightarrow> vulnerability list \<Rightarrow>
   error + (vulnerability list \<times> string set)" where
  "collect_pkg_vulns r pkg [] dedupe_vulns pkg_vulns = Inr (pkg_vulns, dedupe_vulns)"
| "collect_pkg_vulns r pkg (vid # vids) dedupe_vulns pkg_vulns =
     (case vulnerabilities r vid of
        None \<Rightarrow> Inl KeyError
      | Some v \<Rightarrow>
          collect_pkg_vulns r pkg vids
            (insert (vuln_key pkg v) dedupe_vulns)
            (if vuln_key pkg v \<in> dedupe_vulns then pkg_vulns else pkg_vulns @ [v]))"

text \<open>A list comprehension whose element expression may raise: the first exception wins.\<close>

fun sequence_results :: "(error + 'a) list \<Rightarrow> error + 'a list" where
  "sequence_results [] = Inr []"
| "sequence_results (x # xs) =
     (case x of
        Inl ex \<Rightarrow> Inl ex
      | Inr y \<Rightarrow> (case sequence_results xs of Inl ex \<Rightarrow> Inl ex | Inr ys \<Rightarrow> Inr (y # ys)))"

text \<open>
  The \<^verbatim>\<open>Vulnerability(...)\<close> of one kept entry. \<open>fetch_vuln_severity\<close> is the function
  of that name in \<^verbatim>\<open>util.secscan\<close>, a parameter here.
\<close>

definition make_vulnerability ::
  "(vulnerability \<Rightarrow> (string \<times> enrichment) list \<Rightarrow> string) \<Rightarrow>
   (string \<times> enrichment) list \<Rightarrow> vulnerability \<Rightarrow> error + Vulnerability" where
  "make_vulnerability fetch_vuln_severity enr vuln =
     (case vuln_name vuln of
        None \<Rightarrow> Inl KeyError
      | Some name \<Rightarrow>
          Inr (Vulnerability
            (fetch_vuln_severity vuln enr)
            (updater vuln)
            (links vuln)
            (if fixed_in_version vuln \<noteq> ''0'' then fixed_in_version vuln else [])
            (description vuln)
            name
            (Metadata
              (updater vuln)
              (case vuln_repo vuln of None \<Rightarrow> None | Some rp \<Rightarrow> repo_name rp)
              (case vuln_repo vuln of None \<Rightarrow> None | Some rp \<Rightarrow> repo_uri rp)
              (case vuln_dist vuln of None \<Rightarrow> None | Some d \<Rightarrow> dist_name d)
              (case vuln_dist vuln of None \<Rightarrow> None | Some d \<Rightarrow> dist_version d)
              (NVD (CVSSv3
                (case map_of enr (vuln_id vuln) of
                   None \<Rightarrow> []
                 | Some x \<Rightarrow> (case vectorString x of None \<Rightarrow> [] | Some s \<Rightarrow> s))
                (case map_of enr (vuln_id vuln) of
                   None \<Rightarrow> ScoreString []
                 | Some x \<Rightarrow>
                     (case baseScore x of None \<Rightarrow> ScoreString [] | Some b \<Rightarrow> ScoreNumber b)))))))"

text \<open>The outer loop of \<^verbatim>\<open>features_for\<close>, with its two accumulators.\<close>

fun features_loop ::
  "(vulnerability \<Rightarrow> (string \<times> enrichment) list \<Rightarrow> string) \<Rightarrow> report \<Rightarrow>
   (string \<times> package) list \<Rightarrow> string set \<Rightarrow> Feature list \<Rightarrow> error + Feature list" where
  "features_loop f r [] dedupe_vulns features = Inr features"
| "features_loop f r ((pkg_id, pkg) # rest) dedupe_vulns features =
     (case environments r pkg_id of
        None \<Rightarrow> Inl KeyError
      | Some [] \<Rightarrow> Inl IndexError
      | Some (pkg_env # envs) \<Rightarrow>
          (case collect_pkg_vulns r pkg
                  (case package_vulnerabilities r pkg_id of None \<Rightarrow> [] | Some ids \<Rightarrow> ids)
                  dedupe_vulns [] of
             Inl ex \<Rightarrow> Inl ex
           | Inr (pkg_vulns, dedupe_vulns') \<Rightarrow>
               (case report_enrichments r of
                  Inl ex \<Rightarrow> Inl ex
                | Inr enr \<Rightarrow>
                    (case sequence_results (map (make_vulnerability f enr) pkg_vulns) of
                       Inl ex \<Rightarrow> Inl ex
                     | Inr vs \<Rightarrow>
                         features_loop f r rest dedupe_vulns'
                           (features
                            @ [Feature (pkg_name pkg) [] [] (introduced_in pkg_env)
                                 (pkg_version pkg) vs])))))"

definition features_for ::
  "(vulnerability \<Rightarrow> (string \<times> enrichment) list \<Rightarrow> string) \<Rightarrow> report \<Rightarrow>
   error + Feature list" where
  "features_for f r = features_loop f r (packages r) {} []"

text \<open>The CVSS entry of a normalized vulnerability, to state what the output holds.\<close>

fun cvss_of :: "Vulnerability \<Rightarrow> CVSSv3" where
  "cvss_of (Vulnerability sev ns link fixed descr name (Metadata u rn ru dn dv (NVD c))) = c"

text \<open>
  The key string of an entry of the output, from the feature's name and version and
  the vulnerability's name, and the keys of a feature's entries.
\<close>

definition entry_key :: "string \<Rightarrow> string \<Rightarrow> Vulnerability \<Rightarrow> string" where
  "entry_key name version V =
     (case V of Vulnerability sev u l fx d vname md \<Rightarrow>
        name @ ''_'' @ version @ ''_'' @ vname)"

fun feature_keys :: "Feature \<Rightarrow> string list" where
  "feature_keys (Feature name vf ns added version vulns) = map (entry_key name version) vulns"

text \<open>
  The specification's words for the deduplication, as a function: the first occurrence
  of a key wins, later ones are dropped; \<open>seen\<close> are the keys met before the list.
\<close>

fun keep_first :: "('a \<Rightarrow> 'k) \<Rightarrow> 'k set \<Rightarrow> 'a list \<Rightarrow> 'a list" where
  "keep_first key seen [] = []"
| "keep_first key seen (x # xs) =
     (if key x \<in> seen then keep_first key seen xs
      else x # keep_first key (insert (key x) seen) xs)"

subsection \<open>Looking up one manifest\<close>

datatype manifest_or_legacy_image = ManifestDataType Manifest | LegacyImage

datatype ScanLookupStatus = UNSUPPORTED_FOR_INDEXING | NOT_YET_INDEXED | FAILED_TO_INDEX

text \<open>
  \<^verbatim>\<open>SecurityInformationLookupResult\<close>, by the class method that builds the result.
\<close>

datatype SecurityInformationLookupResult =
    with_status ScanLookupStatus
  | for_request_error string
  | for_data SecurityInformation

text \<open>
  \<^verbatim>\<open>ManifestSecurityStatus.get(manifest=...)\<close>: the first matching row, or
  \<^verbatim>\<open>DoesNotExist\<close>.
\<close>

definition ManifestSecurityStatus_get ::
  "ManifestSecurityStatus list \<Rightarrow> int \<Rightarrow> ManifestSecurityStatus option" where
  "ManifestSecurityStatus_get rows i = find (\<lambda>r. manifest r = i) rows"

text \<open>
  \<open>vulnerability_report\<close> is \<^verbatim>\<open>self._secscan_api.vulnerability_report\<close>: it raises
  \<^verbatim>\<open>APIRequestFailure\<close>, or returns \<^verbatim>\<open>None\<close> or a report.
\<close>

definition load_security_information ::
  "(vulnerability \<Rightarrow> (string \<times> enrichment) list \<Rightarrow> string) \<Rightarrow>
   (string \<Rightarrow> report option api_response) \<Rightarrow>
   ManifestSecurityStatus list \<Rightarrow> manifest_or_legacy_image \<Rightarrow>
   error + SecurityInformationLookupResult" where
  "load_security_information f vulnerability_report rows manifest_or_legacy_image =
     (case manifest_or_legacy_image of
        LegacyImage \<Rightarrow> Inr (with_status UNSUPPORTED_FOR_INDEXING)
      | ManifestDataType m \<Rightarrow>
          (case ManifestSecurityStatus_get rows (db_id m) of
             None \<Rightarrow> Inr (with_status NOT_YET_INDEXED)
           | Some status \<Rightarrow>
               if index_status status = FAILED then Inr (with_status FAILED_TO_INDEX)
               else if index_status status = MANIFEST_UNSUPPORTED
               then Inr (with_status UNSUPPORTED_FOR_INDEXING)
               else if index_status status = IN_PROGRESS
               then Inr (with_status NOT_YET_INDEXED)
               else
                 (case vulnerability_report (digest m) of
                    APIRequestFailure msg \<Rightarrow> Inr (for_request_error msg)
                  | Response None \<Rightarrow> Inr (with_status NOT_YET_INDEXED)
                  | Response (Some rep) \<Rightarrow>
                      (case features_for f rep of
                         Inl ex \<Rightarrow> Inl ex
                       | Inr fs \<Rightarrow>
                           Inr (for_data
                             (SecurityInformation
                               (Layer (manifest_hash rep) [] [] 4 fs)))))))"

subsection \<open>Example inputs\<close>

text \<open>
  A store with three manifests, an engine that finishes the first, reports an error
  for the second and is still scanning the third, and the
  default reindex threshold of one day: the threshold of a pass is
  \<open>100000 - 86400 = 13600\<close>. Its arithmetic is exact: the power is the real one.
\<close>

definition example_env :: env where
  "example_env =
     \<lparr>list_manifest_layers = (\<lambda>m. Some [''sha256:layer'']),
      secscan_api_index =
        (\<lambda>m ls.
           if db_id m = 2
           then Return \<lparr>report_state = ''IndexError'', report_err = ''no such layer''\<rparr>
                  ''engine-1''
           else if db_id m = 3
           then Return \<lparr>report_state = ''ScanLayers'', report_err = []\<rparr> ''engine-1''
           else Return \<lparr>report_state = ''IndexFinished'', report_err = []\<rparr> ''engine-1''),
      secscan_api_state = Response \<lparr>state_hash = Some ''engine-1''\<rparr>,
      db_transaction_fails = (\<lambda>n. False),
      utcnow = 100000,
      config_batch_size = Some 50,
      config_reindex_threshold = None,
      manifest_ids = [1, 2, 3],
      yield_random_entries = (\<lambda>q bs hi lo. []),
      pow4_log10 = (\<lambda>x. 4 powr log 10 (real_of_int x))\<rparr>"

definition failing_store_env :: env where
  "failing_store_env = example_env\<lparr>db_transaction_fails := (\<lambda>n. n = 0)\<rparr>"

definition stored_row :: ManifestSecurityStatus where
  "stored_row =
     \<lparr>manifest = 1, repository = 1, error_json = Some [], index_status = COMPLETED,
      indexer_hash = ''engine-1'', indexer_version = V4, metadata_json = [],
      last_indexed = 99000\<rparr>"

definition first_candidate :: Manifest where
  "first_candidate =
     \<lparr>db_id = 1, candidate_repository = 1, digest = ''sha256:one'',
      is_manifest_list = False, manifestsecuritystatus = None\<rparr>"

definition second_candidate :: Manifest where
  "second_candidate =
     \<lparr>db_id = 2, candidate_repository = 1, digest = ''sha256:two'',
      is_manifest_list = False, manifestsecuritystatus = None\<rparr>"

definition third_candidate :: Manifest where
  "third_candidate =
     \<lparr>db_id = 3, candidate_repository = 1, digest = ''sha256:three'',
      is_manifest_list = False, manifestsecuritystatus = None\<rparr>"

text \<open>
  The first manifest as a query for reindexing selects it: joined to a status row
  older than the threshold.
\<close>

definition stale_row :: ManifestSecurityStatus where
  "stale_row =
     \<lparr>manifest = 1, repository = 1, error_json = Some [], index_status = COMPLETED,
      indexer_hash = ''engine-0'', indexer_version = V4, metadata_json = [],
      last_indexed = 1000\<rparr>"

definition stale_joined_candidate :: Manifest where
  "stale_joined_candidate =
     \<lparr>db_id = 1, candidate_repository = 1, digest = ''sha256:one'',
      is_manifest_list = False, manifestsecuritystatus = Some stale_row\<rparr>"

definition empty_state :: pipeline_state where
  "empty_state = \<lparr>status_table = [], abort_flags = {}, submitted = [], transactions = 0\<rparr>"

definition claimed_state :: pipeline_state where
  "claimed_state =
     \<lparr>status_table = [stored_row], abort_flags = {}, submitted = [], transactions = 0\<rparr>"


definition written_row :: "int \<Rightarrow> string \<Rightarrow> IndexStatus \<Rightarrow> ManifestSecurityStatus" where
  "written_row i err status =
     \<lparr>manifest = i, repository = 1, error_json = Some err, index_status = status,
      indexer_hash = ''engine-1'', indexer_version = V4, metadata_json = [],
      last_indexed = 100000\<rparr>"

definition engine_down_env :: env where
  "engine_down_env = example_env\<lparr>secscan_api_state := APIRequestFailure ''timeout''\<rparr>"

definition empty_store_env :: env where
  "empty_store_env = example_env\<lparr>manifest_ids := []\<rparr>"

definition two_candidates_env :: env where
  "two_candidates_env =
     example_env\<lparr>yield_random_entries :=
       (\<lambda>q bs hi lo.
          case q of
            not_indexed_query \<Rightarrow> [(first_candidate, 0, 1), (second_candidate, 0, 0)]
          | index_error_query t \<Rightarrow> []
          | needs_reindexing_query h t \<Rightarrow> [])\<rparr>"

definition two_candidates_failing_env :: env where
  "two_candidates_failing_env = two_candidates_env\<lparr>db_transaction_fails := (\<lambda>n. n = 0)\<rparr>"

definition example_retrieve ::
  "string \<Rightarrow> string option \<Rightarrow> string notification_page option api_response" where
  "example_retrieve notification_id page_index =
     (if notification_id = ''expired'' then Response None
      else if notification_id = ''unreachable'' then APIRequestFailure ''timeout''
      else if page_index = None
      then Response (Some \<lparr>notifications = [''n1'', ''n2''],
                            page = Some \<lparr>page_next = Some ''2''\<rparr>\<rparr>)
      else Response (Some \<lparr>notifications = [''n3''], page = None\<rparr>))"

definition in_progress_row :: ManifestSecurityStatus where
  "in_progress_row = stored_row\<lparr>manifest := 2, index_status := IN_PROGRESS\<rparr>"

definition no_report :: "string \<Rightarrow> report option api_response" where
  "no_report d = Response None"

definition example_severity :: "vulnerability \<Rightarrow> (string \<times> enrichment) list \<Rightarrow> string" where
  "example_severity v enr = normalized_severity v"

text \<open>
  A report with one vulnerability that has three enrichment candidates in the first
  enrichment source (scores 7.5, 9.0 and 9.0) and one in a second source.
\<close>

definition scored_vulnerability :: vulnerability where
  "scored_vulnerability =
     \<lparr>vuln_id = ''42'', vuln_name = Some ''CVE-2023-0001'', updater = ''rhel-vex'',
      links = ''https://access.redhat.com/security/cve/CVE-2023-0001'',
      fixed_in_version = ''0'', description = ''overflow'', normalized_severity = ''High'',
      vuln_repo = None, vuln_dist = None\<rparr>"

definition scored_candidates :: "enrichment list" where
  "scored_candidates =
     [\<lparr>baseScore = Some 7.5, vectorString = Some ''CVSS:3.1/AV:N/AC:L''\<rparr>,
      \<lparr>baseScore = Some 9.0, vectorString = Some ''CVSS:3.1/AV:N/AC:H''\<rparr>,
      \<lparr>baseScore = Some 9.0, vectorString = Some ''CVSS:3.1/AV:L/AC:H''\<rparr>]"

definition scored_first_source ::
  "(string \<times> (string \<times> enrichment list) list list) list" where
  "scored_first_source =
     [(''message/vnd.clair.map.vulnerability; enricher=clair.cvss'',
       [[(''42'', scored_candidates)]])]"

definition scored_report :: report where
  "scored_report =
     \<lparr>manifest_hash = ''sha256:m'',
      packages = [(''1'', \<lparr>pkg_name = ''openssl'', pkg_version = ''1.1.1''\<rparr>)],
      environments = [''1'' \<mapsto> [\<lparr>introduced_in = ''sha256:l1''\<rparr>]],
      package_vulnerabilities = [''1'' \<mapsto> [''42'']],
      vulnerabilities = [''42'' \<mapsto> scored_vulnerability],
      enrichments =
        Some (scored_first_source
              @ [(''other-enricher'',
                  [[(''42'',
                     [\<lparr>baseScore = Some 10, vectorString = Some ''CVSS:3.1/AV:P''\<rparr>])]])])\<rparr>"

text \<open>
  A report in which two packages differ in name and version, but the name, an
  underscore and the version read the same: \<open>libfoo_2\<close> at \<open>1.0\<close> and \<open>libfoo\<close> at
  \<open>2_1.0\<close>. The second package has the same vulnerability from two repositories.
\<close>

definition duplicate_in_repo :: "string \<Rightarrow> string \<Rightarrow> vulnerability" where
  "duplicate_in_repo i rp =
     \<lparr>vuln_id = i, vuln_name = Some ''CVE-2024-0002'', updater = ''rhel-vex'',
      links = ''https://access.redhat.com/security/cve/CVE-2024-0002'',
      fixed_in_version = ''2.1'', description = ''use after free'',
      normalized_severity = ''Medium'',
      vuln_repo = Some \<lparr>repo_name = Some rp, repo_uri = None\<rparr>, vuln_dist = None\<rparr>"

definition colliding_report :: report where
  "colliding_report =
     \<lparr>manifest_hash = ''sha256:m'',
      packages = [(''1'', \<lparr>pkg_name = ''libfoo_2'', pkg_version = ''1.0''\<rparr>),
                  (''2'', \<lparr>pkg_name = ''libfoo'', pkg_version = ''2_1.0''\<rparr>)],
      environments = [''1'' \<mapsto> [\<lparr>introduced_in = ''sha256:l1''\<rparr>],
                      ''2'' \<mapsto> [\<lparr>introduced_in = ''sha256:l2''\<rparr>]],
      package_vulnerabilities = [''1'' \<mapsto> [''10''], ''2'' \<mapsto> [''11'', ''12'']],
      vulnerabilities = [''10'' \<mapsto> duplicate_in_repo ''10'' ''repo-a'',
                         ''11'' \<mapsto> duplicate_in_repo ''11'' ''repo-a'',
                         ''12'' \<mapsto> duplicate_in_repo ''12'' ''repo-b''],
      enrichments = None\<rparr>"

text \<open>One package with the same vulnerability from two repositories.\<close>

definition duplicated_report :: report where
  "duplicated_report =
     \<lparr>manifest_hash = ''sha256:m'',
      packages = [(''1'', \<lparr>pkg_name = ''libfoo'', pkg_version = ''1.0''\<rparr>)],
      environments = [''1'' \<mapsto> [\<lparr>introduced_in = ''sha256:l1''\<rparr>]],
      package_vulnerabilities = [''1'' \<mapsto> [''11'', ''12'']],
      vulnerabilities = [''11'' \<mapsto> duplicate_in_repo ''11'' ''repo-a'',
                         ''12'' \<mapsto> duplicate_in_repo ''12'' ''repo-b''],
      enrichments = None\<rparr>"

section \<open>Properties\<close>

subsection \<open>Exceptions of the pipeline\<close>

lemma db_transaction_error:
  "db_transaction e body st = (Some ex, st') \<Longrightarrow>
   ex = DatabaseError \<and> db_transaction_fails e (transactions st) \<and>
   st' = st\<lparr>transactions := transactions st + 1\<rparr>"
  by (auto simp: db_transaction_def split: if_splits)

lemma db_transaction_ok:
  "\<not> db_transaction_fails e (transactions st) \<Longrightarrow>
   db_transaction e body st =
     (None, st\<lparr>status_table := body (status_table st), transactions := transactions st + 1\<rparr>)"
  by (simp add: db_transaction_def)

lemma index_candidate_error:
  "index_candidate e thr it st = (Some ex, st') \<Longrightarrow>
   ex = DatabaseError \<and> status_table st' = status_table st \<and> abort_flags st' = abort_flags st \<and>
   (submitted st' = submitted st \<or> submitted st' = submitted st @ [db_id (fst it)])"
  by (auto simp: index_candidate_def mark_manifest_unsupported_def write_status_def Let_def
      dest!: db_transaction_error
      split: prod.splits if_splits option.splits index_outcome.splits)


lemma index_pass_error:
  "index_pass e thr its st = (Some ex, st') \<Longrightarrow> ex = DatabaseError"
proof (induction its arbitrary: st)
  case Nil
  then show ?case by simp
next
  case (Cons it its)
  then show ?case
    by (auto split: prod.splits option.splits dest: index_candidate_error)
qed




lemmas example_defs =
  example_env_def failing_store_env_def stored_row_def first_candidate_def
  second_candidate_def third_candidate_def stale_row_def stale_joined_candidate_def
  empty_state_def claimed_state_def

lemmas more_defs = written_row_def engine_down_env_def empty_store_env_def
  two_candidates_env_def two_candidates_failing_env_def

lemmas pipeline_defs =
  index_candidate_def mark_manifest_unsupported_def write_status_def db_transaction_def
  should_skip_indexing_def manifestsecuritystatus_set_def Index_Finished_def Index_Error_def


subsection \<open>The preemption check\<close>

text \<open>
  A candidate that reaches the preemption check (not a manifest list, at least one
  layer) and whose query joined no status row: if the table holds a row of the
  manifest, the round sets the abort flag of the candidate's window and does nothing
  else. No row is written, nothing is submitted, no exception is raised, and the loop
  goes on with the next candidate.
\<close>

theorem unexpected_row_is_skipped:
  assumes "\<not> is_manifest_list c"
    and "list_manifest_layers e c = Some layers"
    and "layers \<noteq> []"
    and "manifestsecuritystatus c = None"
    and "manifestsecuritystatus_set st c \<noteq> []"
  shows "index_candidate e thr (c, abt, n) st
           = (None, st\<lparr>abort_flags := insert abt (abort_flags st)\<rparr>)
         \<and> index_pass e thr ((c, abt, n) # its) st
           = index_pass e thr its (st\<lparr>abort_flags := insert abt (abort_flags st)\<rparr>)"
proof -
  from assms(4,5) have "should_skip_indexing thr st c"
    by (simp add: should_skip_indexing_def)
  with assms(1-3) have
    "index_candidate e thr (c, abt, n) st
       = (None, st\<lparr>abort_flags := insert abt (abort_flags st)\<rparr>)"
    by (simp add: index_candidate_def)
  then show ?thesis by simp
qed

theorem unexpected_row_is_skipped_witness:
  "index_candidate example_env 13600 (first_candidate, 7, 0) claimed_state
     = (None, claimed_state\<lparr>abort_flags := {7}\<rparr>)
   \<and> index_pass example_env 13600 [(first_candidate, 7, 0)] claimed_state
     = (None, claimed_state\<lparr>abort_flags := {7}\<rparr>)"
  using unexpected_row_is_skipped
    [of first_candidate example_env "[''sha256:layer'']" claimed_state 13600 7 0 "[]"]
  by (simp add: example_defs manifestsecuritystatus_set_def)

text \<open>
  Claim C1 fails on the code. For a candidate whose query joined a status row,
  \<open>should_skip_indexing\<close> compares the joined row, as the query read it, with the
  threshold, and does not look at the table. Below, the joined row is older than the
  threshold and another worker has meanwhile written a row for the manifest that is
  newer than the threshold: a status record with \<open>last_indexed \<ge> reindex_threshold\<close>
  exists, yet the abort flag stays unset, the manifest is submitted, and the other
  worker's row is replaced.
\<close>

theorem stale_snapshot_hides_preemption:
  "manifestsecuritystatus stale_joined_candidate = Some stale_row
   \<and> last_indexed stale_row < 13600
   \<and> manifestsecuritystatus_set claimed_state stale_joined_candidate = [stored_row]
   \<and> last_indexed stored_row \<ge> 13600
   \<and> index_candidate example_env 13600 (stale_joined_candidate, 7, 0) claimed_state
     = (None,
        \<lparr>status_table = [written_row 1 [] COMPLETED], abort_flags = {}, submitted = [1],
         transactions = 1\<rparr>)"
  by (simp add: example_defs more_defs pipeline_defs)

subsection \<open>The outcome of a submission\<close>

text \<open>
  Claim C2. A candidate that reaches the submission (not a manifest list, at least one
  layer, not preempted) and whose submission returns a report and an engine state:
  when the report's state is \<open>Index_Finished\<close> the round replaces the manifest's
  rows by one row of status \<open>COMPLETED\<close>; when it is \<open>Index_Error\<close>, by one row of
  status \<open>FAILED\<close>; the row carries the report's error text and the engine state.
  For any other report state the round leaves the table as it was. The store is
  taken to accept the transaction.
\<close>

theorem successful_submission_status:
  assumes "\<not> is_manifest_list c"
    and "list_manifest_layers e c = Some layers"
    and "layers \<noteq> []"
    and "\<not> should_skip_indexing thr st c"
    and "secscan_api_index e c layers = Return rep h"
    and "\<not> db_transaction_fails e (transactions st)"
  shows "(report_state rep = Index_Finished \<longrightarrow>
            fst (index_candidate e thr (c, abt, n) st) = None \<and>
            status_table (snd (index_candidate e thr (c, abt, n) st))
              = filter (\<lambda>r. manifest r \<noteq> db_id c) (status_table st)
                @ [\<lparr>manifest = db_id c, repository = candidate_repository c,
                    error_json = Some (report_err rep), index_status = COMPLETED,
                    indexer_hash = h, indexer_version = V4, metadata_json = [],
                    last_indexed = utcnow e\<rparr>])
       \<and> (report_state rep = Index_Error \<longrightarrow>
            fst (index_candidate e thr (c, abt, n) st) = None \<and>
            status_table (snd (index_candidate e thr (c, abt, n) st))
              = filter (\<lambda>r. manifest r \<noteq> db_id c) (status_table st)
                @ [\<lparr>manifest = db_id c, repository = candidate_repository c,
                    error_json = Some (report_err rep), index_status = FAILED,
                    indexer_hash = h, indexer_version = V4, metadata_json = [],
                    last_indexed = utcnow e\<rparr>])
       \<and> (report_state rep \<noteq> Index_Finished \<and> report_state rep \<noteq> Index_Error \<longrightarrow>
            index_candidate e thr (c, abt, n) st
              = (None, st\<lparr>submitted := submitted st @ [db_id c]\<rparr>))"
  using assms
  by (simp add: index_candidate_def write_status_def db_transaction_def
      Index_Finished_def Index_Error_def)

theorem successful_submission_status_witness:
  "status_table (snd (index_candidate example_env 13600 (first_candidate, 0, 0) empty_state))
     = [written_row 1 [] COMPLETED]
   \<and> status_table (snd (index_candidate example_env 13600 (second_candidate, 0, 0) empty_state))
     = [written_row 2 ''no such layer'' FAILED]
   \<and> index_candidate example_env 13600 (third_candidate, 0, 0) empty_state
     = (None, empty_state\<lparr>submitted := [3]\<rparr>)"
  using successful_submission_status
    [of first_candidate example_env "[''sha256:layer'']" 13600 empty_state
        "\<lparr>report_state = ''IndexFinished'', report_err = []\<rparr>" "''engine-1''" 0 0]
    successful_submission_status
    [of second_candidate example_env "[''sha256:layer'']" 13600 empty_state
        "\<lparr>report_state = ''IndexError'', report_err = ''no such layer''\<rparr>" "''engine-1''" 0 0]
    successful_submission_status
    [of third_candidate example_env "[''sha256:layer'']" 13600 empty_state
        "\<lparr>report_state = ''ScanLayers'', report_err = []\<rparr>" "''engine-1''" 0 0]
  by (simp add: example_defs pipeline_defs written_row_def)

subsection \<open>The continuation token\<close>




subsection \<open>A failing store\<close>




subsection \<open>Notification pages\<close>

text \<open>
  Claim C7. When the engine answers that the notification does not exist, the result is
  \<open>FATAL_ERROR\<close> with no entries and no next page; when the call raises
  \<^verbatim>\<open>APIRequestFailure\<close>, the result is \<open>RETRYABLE_ERROR\<close>; when it returns a page, the
  result is \<open>SUCCESS\<close> with the page's entries and its next-page token, if it has
  one. The function returns a result in each case: it raises nothing.
\<close>

theorem lookup_notification_page_status:
  "(retrieve notification_id page_index = Response None \<longrightarrow>
      lookup_notification_page retrieve notification_id page_index
        = PaginatedNotificationResult FATAL_ERROR None None)
   \<and> (retrieve notification_id page_index = APIRequestFailure msg \<longrightarrow>
      lookup_notification_page retrieve notification_id page_index
        = PaginatedNotificationResult RETRYABLE_ERROR None None)
   \<and> (retrieve notification_id page_index = Response (Some pg) \<longrightarrow>
      lookup_notification_page retrieve notification_id page_index
        = PaginatedNotificationResult SUCCESS (Some (notifications pg))
            (case page pg of None \<Rightarrow> None | Some p \<Rightarrow> page_next p))"
  by (simp add: lookup_notification_page_def)

theorem lookup_notification_page_status_witness:
  "lookup_notification_page example_retrieve ''expired'' None
     = PaginatedNotificationResult FATAL_ERROR None None
   \<and> lookup_notification_page example_retrieve ''unreachable'' None
     = PaginatedNotificationResult RETRYABLE_ERROR None None
   \<and> lookup_notification_page example_retrieve ''id'' None
     = PaginatedNotificationResult SUCCESS (Some [''n1'', ''n2'']) (Some ''2'')
   \<and> lookup_notification_page example_retrieve ''id'' (Some ''2'')
     = PaginatedNotificationResult SUCCESS (Some [''n3'']) None"
  using lookup_notification_page_status [of example_retrieve "''expired''" None]
    lookup_notification_page_status [of example_retrieve "''unreachable''" None "''timeout''"]
    lookup_notification_page_status [of example_retrieve "''id''" None _
      "\<lparr>notifications = [''n1'', ''n2''], page = Some \<lparr>page_next = Some ''2''\<rparr>\<rparr>"]
    lookup_notification_page_status [of example_retrieve "''id''" "Some ''2''" _
      "\<lparr>notifications = [''n3''], page = None\<rparr>"]
  by (simp add: example_retrieve_def)

subsection \<open>Looking up a manifest that has no report\<close>

text \<open>
  Claim C9. For a manifest whose stored status is \<open>COMPLETED\<close>, when the engine
  answers the report request with no report, the lookup returns the status
  \<open>NOT_YET_INDEXED\<close>; so it does for a manifest whose stored status is
  \<open>IN_PROGRESS\<close>.
\<close>

theorem load_security_information_not_yet_indexed:
  assumes "ManifestSecurityStatus_get rows (db_id m) = Some status"
    and "(index_status status = COMPLETED \<and> vulnerability_report (digest m) = Response None)
         \<or> index_status status = IN_PROGRESS"
  shows "load_security_information f vulnerability_report rows (ManifestDataType m)
           = Inr (with_status NOT_YET_INDEXED)"
  using assms by (auto simp: load_security_information_def)

theorem load_security_information_not_yet_indexed_witness:
  "load_security_information example_severity no_report [stored_row, in_progress_row]
     (ManifestDataType first_candidate) = Inr (with_status NOT_YET_INDEXED)
   \<and> load_security_information example_severity no_report [stored_row, in_progress_row]
     (ManifestDataType second_candidate) = Inr (with_status NOT_YET_INDEXED)"
  using load_security_information_not_yet_indexed
    [of "[stored_row, in_progress_row]" first_candidate stored_row no_report example_severity]
    load_security_information_not_yet_indexed
    [of "[stored_row, in_progress_row]" second_candidate in_progress_row no_report
        example_severity]
  by (simp add: example_defs in_progress_row_def no_report_def ManifestSecurityStatus_get_def)

subsection \<open>The recent-manifests scan on an empty store\<close>

text \<open>
  Claim C10. When the engine's \<^verbatim>\<open>state()\<close> call succeeds and the table of manifests is
  empty, the maximum-id query yields \<^verbatim>\<open>None\<close> and
  \<open>perform_indexing_recent_manifests\<close> raises a TypeError, changing nothing; with at
  least one manifest it never raises a TypeError.
\<close>

theorem perform_indexing_recent_manifests_empty_store:
  assumes "secscan_api_state e = Response ist"
  shows "(manifest_ids e = [] \<longrightarrow>
            select_max_id (manifest_ids e) = None
            \<and> perform_indexing_recent_manifests e batch_size st = (Inl TypeError, st))
         \<and> ((fst (perform_indexing_recent_manifests e batch_size st) = Inl TypeError)
              = (manifest_ids e = []))"
proof (cases "manifest_ids e")
  case Nil
  with assms show ?thesis
    by (simp add: perform_indexing_recent_manifests_def select_max_id_def Let_def)
next
  case (Cons x xs)
  have "ex = DatabaseError" if "index_pass e thr its st = (Some ex, st')" for thr its ex st'
    using that by (rule index_pass_error)
  with assms Cons show ?thesis
    by (auto simp: perform_indexing_recent_manifests_def select_max_id_def Let_def
        split: prod.splits option.splits)
qed

theorem perform_indexing_recent_manifests_empty_store_witness:
  "select_max_id (manifest_ids empty_store_env) = None
   \<and> perform_indexing_recent_manifests empty_store_env None empty_state
       = (Inl TypeError, empty_state)
   \<and> fst (perform_indexing_recent_manifests example_env None empty_state) \<noteq> Inl TypeError"
  using perform_indexing_recent_manifests_empty_store
    [of empty_store_env "\<lparr>state_hash = Some ''engine-1''\<rparr>" None empty_state]
    perform_indexing_recent_manifests_empty_store
    [of example_env "\<lparr>state_hash = Some ''engine-1''\<rparr>" None empty_state]
  by (simp add: example_defs more_defs)

subsection \<open>Enrichments: the first source, the highest score\<close>

lemma find_first_of_filter:
  "filter P xs = x # zs \<Longrightarrow> find P xs = Some x"
  by (induction xs) (auto split: if_splits)

lemma sorted_reverse_head:
  assumes "sorted_reverse key xs = x # rest"
  shows "x \<in> set xs \<and> (\<forall>y\<in>set xs. key y \<le> key x) \<and> find (\<lambda>y. key y = key x) xs = Some x"
proof -
  define ys where "ys = sort_key key (rev xs)"
  from assms have ys: "ys = rev rest @ [x]"
    by (simp add: sorted_reverse_def ys_def rev_swap [symmetric] flip: rev_swap)
  have "sorted (map key ys)" by (simp add: ys_def)
  with ys have upper: "\<forall>y\<in>set ys. key y \<le> key x"
    by (auto simp: sorted_append)
  have set: "set ys = set xs" by (simp add: ys_def)
  have "filter (\<lambda>y. key y = key x) ys = filter (\<lambda>y. key y = key x) (rev xs)"
    unfolding ys_def by (rule sort_key_stable)
  then have "rev (filter (\<lambda>y. key y = key x) xs) = filter (\<lambda>y. key y = key x) (rev rest) @ [x]"
    by (simp add: ys rev_filter)
  then have "filter (\<lambda>y. key y = key x) xs = x # rev (filter (\<lambda>y. key y = key x) (rev rest))"
    by (metis rev_rev_ident rev_append rev.simps append_Cons append_Nil)
  then have "find (\<lambda>y. key y = key x) xs = Some x"
    by (rule find_first_of_filter)
  moreover from ys set have "x \<in> set xs" by auto
  ultimately show ?thesis using upper set by simp
qed

lemma those_map_Some:
  "those (map f xs) = Some ys \<Longrightarrow> map f xs = map Some ys"
  by (induction xs arbitrary: ys) (auto split: option.splits)

lemma highest_base_score_first_maximum:
  assumes "highest_base_score cands = Inr x"
  shows "\<exists>b. baseScore x = Some b
           \<and> (\<forall>y\<in>set cands. \<exists>c. baseScore y = Some c \<and> c \<le> b)
           \<and> find (\<lambda>y. baseScore y = Some b) cands = Some x"
proof -
  from assms obtain scores s rest where
    sc: "those (map baseScore cands) = Some scores" and
    hd: "sorted_reverse fst (zip scores cands) = (s, x) # rest"
    by (auto simp: highest_base_score_def split: option.splits list.splits)
  from sc have m: "map baseScore cands = map Some scores" by (rule those_map_Some)
  then have len: "length scores = length cands" by (metis length_map)
  have zs: "zip scores cands = map (\<lambda>c. (the (baseScore c), c)) cands"
    using m len
  proof (induction cands arbitrary: scores)
    case Nil then show ?case by simp
  next
    case (Cons c cs) then show ?case by (cases scores) auto
  qed
  have all: "\<forall>y\<in>set cands. \<exists>c. baseScore y = Some c"
    using m by (metis (no_types, lifting) image_iff list.set_map)
  from sorted_reverse_head [OF hd]
  have mem: "(s, x) \<in> set (zip scores cands)"
    and up: "\<forall>p\<in>set (zip scores cands). fst p \<le> s"
    and fi: "find (\<lambda>p. fst p = s) (zip scores cands) = Some (s, x)"
    by auto
  from mem zs have sx: "s = the (baseScore x)" "x \<in> set cands" by auto
  with all have bx: "baseScore x = Some s" by auto
  have "\<forall>y\<in>set cands. \<exists>c. baseScore y = Some c \<and> c \<le> s"
  proof
    fix y assume y: "y \<in> set cands"
    with all obtain c where c: "baseScore y = Some c" by auto
    from y zs have "(the (baseScore y), y) \<in> set (zip scores cands)" by auto
    with up c show "\<exists>c. baseScore y = Some c \<and> c \<le> s" by auto
  qed
  moreover have "find (\<lambda>y. baseScore y = Some s) cands = Some x"
  proof -
    have "find (\<lambda>p. fst p = s) (map (\<lambda>c. (the (baseScore c), c)) cands)
            = map_option (\<lambda>c. (the (baseScore c), c)) (find (\<lambda>y. baseScore y = Some s) cands)"
      using all by (induction cands) auto
    with fi zs show ?thesis by auto
  qed
  ultimately show ?thesis using bx by blast
qed

lemma enrichment_items_lookup:
  assumes "enrichment_items doc = Inr enr" and "map_of doc vid = Some cands"
  shows "\<exists>x. map_of enr vid = Some x \<and> highest_base_score cands = Inr x"
  using assms
proof (induction doc arbitrary: enr)
  case Nil then show ?case by simp
next
  case (Cons kv doc)
  then show ?case
    by (cases kv) (auto split: sum.splits if_splits)
qed

lemma collect_pkg_vulns_cong:
  "vulnerabilities r = vulnerabilities r' \<Longrightarrow>
   collect_pkg_vulns r pkg ids d acc = collect_pkg_vulns r' pkg ids d acc"
  by (induction ids arbitrary: d acc) (auto split: option.splits)

lemma features_loop_cong:
  assumes "environments r = environments r'"
    and "package_vulnerabilities r = package_vulnerabilities r'"
    and "vulnerabilities r = vulnerabilities r'"
    and "report_enrichments r = report_enrichments r'"
  shows "features_loop f r ps d fs = features_loop f r' ps d fs"
proof (induction ps arbitrary: d fs)
  case Nil
  then show ?case by simp
next
  case (Cons p ps)
  obtain pkg_id pkg where p: "p = (pkg_id, pkg)" by (cases p)
  have c: "collect_pkg_vulns r pkg ids d [] = collect_pkg_vulns r' pkg ids d []" for ids
    using assms(3) by (rule collect_pkg_vulns_cong)
  show ?case
    unfolding p
    by (simp add: assms c Cons.IH
        split: option.splits list.splits sum.splits prod.splits)
qed

text \<open>
  Claim C6. The normalizer reads the first enrichment source only: the sources after
  it do not change the result. For a vulnerability id with candidate entries in the
  first document of that source, the entry used is one with the highest base score,
  and among those of that score the first in the original order; its vector string
  and score are what the normalized vulnerability carries. The witness has the
  candidates 7.5, 9.0 and 9.0: the first 9.0 entry's vector string is selected.
\<close>

theorem enrichment_first_source_highest_score:
  "features_for f (r\<lparr>enrichments := Some ((source, docs) # others)\<rparr>)
     = features_for f (r\<lparr>enrichments := Some [(source, docs)]\<rparr>)
   \<and> (enrichments r = Some ((source, doc # docs') # others) \<longrightarrow>
      report_enrichments r = Inr enr \<longrightarrow>
      map_of doc (vuln_id v) = Some cands \<longrightarrow>
      (\<exists>x b. baseScore x = Some b
         \<and> (\<forall>y\<in>set cands. \<exists>c. baseScore y = Some c \<and> c \<le> b)
         \<and> find (\<lambda>y. baseScore y = Some b) cands = Some x
         \<and> map_of enr (vuln_id v) = Some x
         \<and> (\<forall>name. vuln_name v = Some name \<longrightarrow>
              (\<exists>V. make_vulnerability f enr v = Inr V
                 \<and> cvss_of V
                   = CVSSv3 (case vectorString x of None \<Rightarrow> [] | Some s \<Rightarrow> s)
                       (ScoreNumber b)))))"
proof (intro conjI impI)
  show "features_for f (r\<lparr>enrichments := Some ((source, docs) # others)\<rparr>)
     = features_for f (r\<lparr>enrichments := Some [(source, docs)]\<rparr>)"
    unfolding features_for_def
    by (simp add: features_loop_cong
        [of "r\<lparr>enrichments := Some ((source, docs) # others)\<rparr>"
            "r\<lparr>enrichments := Some [(source, docs)]\<rparr>"]
        report_enrichments_def)
next
  assume e: "enrichments r = Some ((source, doc # docs') # others)"
    and r: "report_enrichments r = Inr enr"
    and m: "map_of doc (vuln_id v) = Some cands"
  from e r have "enrichment_items doc = Inr enr"
    by (simp add: report_enrichments_def)
  from enrichment_items_lookup [OF this m] obtain x where
    x: "map_of enr (vuln_id v) = Some x" and h: "highest_base_score cands = Inr x"
    by blast
  from highest_base_score_first_maximum [OF h] obtain b where
    b: "baseScore x = Some b"
      "\<forall>y\<in>set cands. \<exists>c. baseScore y = Some c \<and> c \<le> b"
      "find (\<lambda>y. baseScore y = Some b) cands = Some x"
    by blast
  have "\<forall>name. vuln_name v = Some name \<longrightarrow>
          (\<exists>V. make_vulnerability f enr v = Inr V
             \<and> cvss_of V
               = CVSSv3 (case vectorString x of None \<Rightarrow> [] | Some s \<Rightarrow> s) (ScoreNumber b))"
    using x b(1) by (simp add: make_vulnerability_def)
  with x b show "\<exists>x b. baseScore x = Some b
         \<and> (\<forall>y\<in>set cands. \<exists>c. baseScore y = Some c \<and> c \<le> b)
         \<and> find (\<lambda>y. baseScore y = Some b) cands = Some x
         \<and> map_of enr (vuln_id v) = Some x
         \<and> (\<forall>name. vuln_name v = Some name \<longrightarrow>
              (\<exists>V. make_vulnerability f enr v = Inr V
                 \<and> cvss_of V
                   = CVSSv3 (case vectorString x of None \<Rightarrow> [] | Some s \<Rightarrow> s)
                       (ScoreNumber b)))"
    by blast
qed

theorem enrichment_first_source_highest_score_witness:
  "features_for example_severity scored_report
     = Inr [Feature ''openssl'' [] [] ''sha256:l1'' ''1.1.1''
         [Vulnerability ''High'' ''rhel-vex''
            ''https://access.redhat.com/security/cve/CVE-2023-0001'' [] ''overflow''
            ''CVE-2023-0001''
            (Metadata ''rhel-vex'' None None None None
               (NVD (CVSSv3 ''CVSS:3.1/AV:N/AC:H'' (ScoreNumber 9))))]]
   \<and> features_for example_severity (scored_report\<lparr>enrichments := Some scored_first_source\<rparr>)
     = features_for example_severity scored_report"
  using enrichment_first_source_highest_score
    [where f = example_severity and r = scored_report
       and source = "''message/vnd.clair.map.vulnerability; enricher=clair.cvss''"
       and docs = "[[(''42'', scored_candidates)]]"
       and others = "[(''other-enricher'',
           [[(''42'', [\<lparr>baseScore = Some 10, vectorString = Some ''CVSS:3.1/AV:P''\<rparr>])]])]"
       and doc = "[(''42'', scored_candidates)]" and docs' = "[]"
       and enr = "[(''42'', \<lparr>baseScore = Some 9.0, vectorString = Some ''CVSS:3.1/AV:N/AC:H''\<rparr>)]"
       and v = scored_vulnerability and cands = scored_candidates]
  by (simp add: features_for_def scored_report_def scored_vulnerability_def
      scored_candidates_def scored_first_source_def
      report_enrichments_def highest_base_score_def sorted_reverse_def vuln_key_def
      make_vulnerability_def example_severity_def)

subsection \<open>Deduplication and colliding keys\<close>

lemma keep_first_keys:
  "distinct (map key (keep_first key seen xs))
   \<and> set (map key (keep_first key seen xs)) = key ` set xs - seen"
  by (induction xs arbitrary: seen) auto

lemma keep_first_append:
  "keep_first key seen (xs @ ys)
     = keep_first key seen xs @ keep_first key (seen \<union> key ` set xs) ys"
  by (induction xs arbitrary: seen) (auto simp: insert_absorb)

lemma collect_pkg_vulns_kept:
  assumes "collect_pkg_vulns r pkg ids dedupe_vulns pkg_vulns = Inr (kept, dedupe_vulns')"
  shows "\<exists>vs. map (vulnerabilities r) ids = map Some vs
           \<and> kept = pkg_vulns @ keep_first (vuln_key pkg) dedupe_vulns vs
           \<and> dedupe_vulns' = dedupe_vulns \<union> vuln_key pkg ` set vs"
  using assms
proof (induction ids arbitrary: dedupe_vulns pkg_vulns)
  case Nil
  then show ?case by simp
next
  case (Cons vid ids)
  from Cons.prems obtain v where v: "vulnerabilities r vid = Some v"
    by (auto split: option.splits)
  with Cons.prems have
    "collect_pkg_vulns r pkg ids (insert (vuln_key pkg v) dedupe_vulns)
       (if vuln_key pkg v \<in> dedupe_vulns then pkg_vulns else pkg_vulns @ [v])
     = Inr (kept, dedupe_vulns')"
    by simp
  from Cons.IH [OF this] obtain vs where vs:
    "map (vulnerabilities r) ids = map Some vs"
    "kept = (if vuln_key pkg v \<in> dedupe_vulns then pkg_vulns else pkg_vulns @ [v])
            @ keep_first (vuln_key pkg) (insert (vuln_key pkg v) dedupe_vulns) vs"
    "dedupe_vulns' = insert (vuln_key pkg v) dedupe_vulns \<union> vuln_key pkg ` set vs"
    by blast
  have "map (vulnerabilities r) (vid # ids) = map Some (v # vs)"
    using v vs(1) by simp
  moreover have "kept = pkg_vulns @ keep_first (vuln_key pkg) dedupe_vulns (v # vs)"
    using vs(2) by (simp add: insert_absorb)
  moreover have "dedupe_vulns' = dedupe_vulns \<union> vuln_key pkg ` set (v # vs)"
    using vs(3) by auto
  ultimately show ?case by blast
qed

text \<open>
  What the inner loop keeps for a package. The ids are all found in the report, and of
  their vulnerabilities the loop keeps, in order, the first of each key string that
  was not met before; the keys it has met are added to \<open>dedupe_vulns\<close>.
\<close>

theorem collect_pkg_vulns_keeps_first:
  assumes "collect_pkg_vulns r pkg ids dedupe_vulns pkg_vulns = Inr (kept, dedupe_vulns')"
  shows "\<exists>vs. map (vulnerabilities r) ids = map Some vs
           \<and> kept = pkg_vulns @ keep_first (vuln_key pkg) dedupe_vulns vs
           \<and> dedupe_vulns' = dedupe_vulns \<union> vuln_key pkg ` set vs"
  using assms by (rule collect_pkg_vulns_kept)

theorem collect_pkg_vulns_keeps_first_witness:
  "collect_pkg_vulns duplicated_report \<lparr>pkg_name = ''libfoo'', pkg_version = ''1.0''\<rparr>
     [''11'', ''12''] {} []
     = Inr ([duplicate_in_repo ''11'' ''repo-a''], {''libfoo_1.0_CVE-2024-0002''})
   \<and> keep_first (vuln_key \<lparr>pkg_name = ''libfoo'', pkg_version = ''1.0''\<rparr>) {}
       [duplicate_in_repo ''11'' ''repo-a'', duplicate_in_repo ''12'' ''repo-b'']
     = [duplicate_in_repo ''11'' ''repo-a'']"
  using collect_pkg_vulns_keeps_first
    [of duplicated_report "\<lparr>pkg_name = ''libfoo'', pkg_version = ''1.0''\<rparr>"
        "[''11'', ''12'']" "{}" "[]" "[duplicate_in_repo ''11'' ''repo-a'']"
        "{''libfoo_1.0_CVE-2024-0002''}"]
  by (simp add: duplicated_report_def duplicate_in_repo_def vuln_key_def)

lemma sequence_results_map:
  "sequence_results (map g xs) = Inr ys \<Longrightarrow> list_all2 (\<lambda>x y. g x = Inr y) xs ys"
  by (induction xs arbitrary: ys) (auto split: sum.splits)

lemma make_vulnerability_key:
  "make_vulnerability f enr v = Inr V \<Longrightarrow>
   entry_key (pkg_name pkg) (pkg_version pkg) V = vuln_key pkg v"
  by (auto simp: make_vulnerability_def vuln_key_def entry_key_def split: option.splits)

lemma feature_keys_made:
  assumes "sequence_results (map (make_vulnerability f enr) kept) = Inr vs"
  shows "feature_keys (Feature (pkg_name pkg) a b c (pkg_version pkg) vs)
           = map (vuln_key pkg) kept"
proof -
  from sequence_results_map [OF assms]
  have "list_all2 (\<lambda>x y. make_vulnerability f enr x = Inr y) kept vs" .
  then have "map (entry_key (pkg_name pkg) (pkg_version pkg)) vs = map (vuln_key pkg) kept"
    by (induction rule: list_all2_induct) (auto dest: make_vulnerability_key [where pkg = pkg])
  then show ?thesis by simp
qed

lemma features_loop_keys:
  assumes "features_loop f r ps seen fs0 = Inr fs"
    and "distinct (concat (map feature_keys fs0))"
    and "set (concat (map feature_keys fs0)) \<subseteq> seen"
  shows "distinct (concat (map feature_keys fs))"
  using assms
proof (induction ps arbitrary: seen fs0)
  case Nil
  then show ?case by simp
next
  case (Cons p ps)
  obtain pkg_id pkg where p: "p = (pkg_id, pkg)" by (cases p)
  from Cons.prems(1) obtain pkg_env envs kept seen' enr vs where
    env: "environments r pkg_id = Some (pkg_env # envs)" and
    col: "collect_pkg_vulns r pkg
            (case package_vulnerabilities r pkg_id of None \<Rightarrow> [] | Some ids \<Rightarrow> ids) seen []
          = Inr (kept, seen')" and
    made: "sequence_results (map (make_vulnerability f enr) kept) = Inr vs" and
    rest: "features_loop f r ps seen'
             (fs0 @ [Feature (pkg_name pkg) [] [] (introduced_in pkg_env) (pkg_version pkg) vs])
           = Inr fs"
    unfolding p
    by (auto split: option.splits list.splits sum.splits prod.splits)
  from collect_pkg_vulns_kept [OF col] obtain xs where
    kept: "kept = keep_first (vuln_key pkg) seen xs" and
    seen': "seen' = seen \<union> vuln_key pkg ` set xs"
    by auto
  have keys: "feature_keys (Feature (pkg_name pkg) [] [] (introduced_in pkg_env)
                (pkg_version pkg) vs) = map (vuln_key pkg) kept"
    using made by (rule feature_keys_made)
  have d: "distinct (map (vuln_key pkg) kept)"
    and s: "set (map (vuln_key pkg) kept) = vuln_key pkg ` set xs - seen"
    unfolding kept using keep_first_keys [of "vuln_key pkg" seen xs] by auto
  show ?case
  proof (rule Cons.IH [OF rest])
    show "distinct (concat (map feature_keys
            (fs0 @ [Feature (pkg_name pkg) [] [] (introduced_in pkg_env) (pkg_version pkg) vs])))"
      using Cons.prems(2,3) d s by (auto simp: keys simp del: feature_keys.simps)
    show "set (concat (map feature_keys
            (fs0 @ [Feature (pkg_name pkg) [] [] (introduced_in pkg_env) (pkg_version pkg) vs])))
          \<subseteq> seen'"
      using Cons.prems(3) s by (auto simp: keys seen' simp del: feature_keys.simps)
  qed
qed

text \<open>
  What the whole normalizer guarantees: no two entries of the output have the same
  key string, across all features.
\<close>

theorem features_for_keys_distinct:
  assumes "features_for f r = Inr fs"
  shows "distinct (concat (map feature_keys fs))"
  using assms features_loop_keys [of f r "packages r" "{}" "[]" fs]
  by (simp add: features_for_def)

theorem features_for_keys_distinct_witness:
  "features_for example_severity duplicated_report
     = Inr [Feature ''libfoo'' [] [] ''sha256:l1'' ''1.0''
              [Vulnerability ''Medium'' ''rhel-vex''
                 ''https://access.redhat.com/security/cve/CVE-2024-0002'' ''2.1''
                 ''use after free'' ''CVE-2024-0002''
                 (Metadata ''rhel-vex'' (Some ''repo-a'') None None None
                    (NVD (CVSSv3 [] (ScoreString []))))]]
   \<and> distinct (concat (map feature_keys (projr (features_for example_severity duplicated_report))))"
  using features_for_keys_distinct
    [of example_severity duplicated_report
        "projr (features_for example_severity duplicated_report)"]
  by (simp add: features_for_def duplicated_report_def duplicate_in_repo_def
      report_enrichments_def vuln_key_def make_vulnerability_def example_severity_def
      entry_key_def)

text \<open>
  Claim C5 fails on the code. The key of the deduplication is the string
  \<^verbatim>\<open>name + "_" + version + "_" + vulnerability name\<close>, which two different pairs of
  name and version can share. In the report below the two entries of the second
  package have the same package name, version and vulnerability name, and the
  output holds no entry for them at all: the first package's entry took their key.
\<close>

theorem colliding_keys_drop_all_entries:
  "features_for example_severity colliding_report
     = Inr [Feature ''libfoo_2'' [] [] ''sha256:l1'' ''1.0''
              [Vulnerability ''Medium'' ''rhel-vex''
                 ''https://access.redhat.com/security/cve/CVE-2024-0002'' ''2.1''
                 ''use after free'' ''CVE-2024-0002''
                 (Metadata ''rhel-vex'' (Some ''repo-a'') None None None
                    (NVD (CVSSv3 [] (ScoreString []))))],
            Feature ''libfoo'' [] [] ''sha256:l2'' ''2_1.0'' []]"
  by (simp add: features_for_def colliding_report_def duplicate_in_repo_def
      report_enrichments_def vuln_key_def make_vulnerability_def example_severity_def)

subsection \<open>The size of a batch\<close>



lemma pow4_log10_exact_10: "4 powr log 10 (10::real) = 4"
  by simp









end
